theory Spec2Isabelle
  imports Complex_Main
begin

section \<open>The D1 dialect of src/index.ts\<close>

text \<open>
  The file defines three classes: \<open>D1Dialect\<close>, \<open>D1Driver\<close> and \<open>D1Connection\<close>.
  The driver hands out connections; a connection sends one compiled query to the D1
  database handle and turns the answer into a \<open>QueryResult\<close>.

  Every method is \<open>async\<close>. An awaited call either yields a value or throws, so a
  method is a function from the world before the call to an outcome (\<open>Inl\<close> the thrown
  error, \<open>Inr\<close> the value) and the world after it.
\<close>

subsection \<open>JavaScript values\<close>

text \<open>
  A number is a double: a finite value (every finite double is a rational; \<open>-0\<close> and
  \<open>0\<close> are not told apart, no operation below distinguishes them), \<open>NaN\<close> or an
  infinity. A string is a list of 8-bit characters, read as the code units
  \<open>U+0000\<close> to \<open>U+00FF\<close>; strings with other code units are not represented.
\<close>

datatype jsnum = Finite rat | NaN | PosInfinity | NegInfinity

datatype jsval =
    JUndefined
  | JNull
  | JBool bool
  | JNum jsnum
  | JStr string

text \<open>
  What a \<open>throw\<close> carries. \<open>Error m\<close> is \<open>new Error(m)\<close>; the other three are the
  errors the built-in \<open>BigInt\<close> function throws (their messages depend on the engine
  and are left out).
\<close>

datatype js_error = Error string | TypeError | RangeError | SyntaxError

subsection \<open>The built-in \<open>BigInt(value)\<close>\<close>

text \<open>
  ECMAScript: a Number is converted by NumberToBigInt, which throws a RangeError unless
  the number is an integral Number; \<open>undefined\<close> and \<open>null\<close> throw a TypeError; a
  Boolean gives \<open>1n\<close> or \<open>0n\<close>; a String is parsed by StringToBigInt (white space is
  trimmed, the empty string is \<open>0n\<close>, then either a decimal integer with an optional
  sign or an unsigned binary, octal or hexadecimal literal) and throws a SyntaxError
  when it does not parse.

  The white space and line terminators of ECMAScript among the code units up to
  \<open>U+00FF\<close> are TAB, LF, VT, FF, CR, the space and the no-break space \<open>U+00A0\<close>.
\<close>

definition StrWhiteSpaceChar :: "char \<Rightarrow> bool" where
  "StrWhiteSpaceChar c =
     (c \<in> set [CHR 0x09, CHR 0x0A, CHR 0x0B, CHR 0x0C, CHR 0x0D, CHR 0x20, CHR 0xA0])"

definition trimString :: "string \<Rightarrow> string" where
  "trimString s =
     rev (dropWhile StrWhiteSpaceChar (rev (dropWhile StrWhiteSpaceChar s)))"

definition digitValue :: "char \<Rightarrow> nat option" where
  "digitValue c =
     (let n = (of_char c :: nat) in
      if 48 \<le> n \<and> n \<le> 57 then Some (n - 48)
      else if 97 \<le> n \<and> n \<le> 102 then Some (n - 87)
      else if 65 \<le> n \<and> n \<le> 70 then Some (n - 55)
      else None)"

fun digitsValue :: "nat \<Rightarrow> string \<Rightarrow> nat \<Rightarrow> nat option" where
  "digitsValue b [] acc = Some acc"
| "digitsValue b (c # cs) acc =
     (case digitValue c of
        None \<Rightarrow> None
      | Some d \<Rightarrow> if d < b then digitsValue b cs (acc * b + d) else None)"

definition parseDigits :: "nat \<Rightarrow> string \<Rightarrow> nat option" where
  "parseDigits b cs = (if cs = [] then None else digitsValue b cs 0)"

definition parseSignedInteger :: "string \<Rightarrow> int option" where
  "parseSignedInteger t =
     (case t of
        [] \<Rightarrow> None
      | c # ds \<Rightarrow>
          if c = CHR ''+'' then map_option int (parseDigits 10 ds)
          else if c = CHR ''-'' then map_option (\<lambda>n. - int n) (parseDigits 10 ds)
          else map_option int (parseDigits 10 t))"

definition StringToBigInt :: "string \<Rightarrow> int option" where
  "StringToBigInt s =
     (let t = trimString s in
      case t of
        [] \<Rightarrow> Some 0
      | [c] \<Rightarrow> parseSignedInteger t
      | c0 # c1 # ds \<Rightarrow>
          if c0 = CHR ''0'' \<and> (c1 = CHR ''b'' \<or> c1 = CHR ''B'')
            then map_option int (parseDigits 2 ds)
          else if c0 = CHR ''0'' \<and> (c1 = CHR ''o'' \<or> c1 = CHR ''O'')
            then map_option int (parseDigits 8 ds)
          else if c0 = CHR ''0'' \<and> (c1 = CHR ''x'' \<or> c1 = CHR ''X'')
            then map_option int (parseDigits 16 ds)
          else parseSignedInteger t)"

definition NumberToBigInt :: "jsnum \<Rightarrow> js_error + int" where
  "NumberToBigInt x =
     (case x of
        Finite q \<Rightarrow> if q = of_int \<lfloor>q\<rfloor> then Inr \<lfloor>q\<rfloor> else Inl RangeError
      | NaN \<Rightarrow> Inl RangeError
      | PosInfinity \<Rightarrow> Inl RangeError
      | NegInfinity \<Rightarrow> Inl RangeError)"

definition BigInt :: "jsval \<Rightarrow> js_error + int" where
  "BigInt v =
     (case v of
        JUndefined \<Rightarrow> Inl TypeError
      | JNull \<Rightarrow> Inl TypeError
      | JBool b \<Rightarrow> Inr (if b then 1 else 0)
      | JNum x \<Rightarrow> NumberToBigInt x
      | JStr s \<Rightarrow> (case StringToBigInt s of None \<Rightarrow> Inl SyntaxError | Some n \<Rightarrow> Inr n))"

subsection \<open>The D1 database handle\<close>

text \<open>
  A result row is an object: a finite map from field names to values. Reading a field
  the object does not have gives \<open>undefined\<close>.
\<close>

type_synonym row = "string \<rightharpoonup> jsval"

definition getField :: "row \<Rightarrow> string \<Rightarrow> jsval" where
  "getField r k = (case r k of None \<Rightarrow> JUndefined | Some v \<Rightarrow> v)"

text \<open>
  Modelled from the spec: the answer of \<open>all()\<close>, whose type belongs to the package
  \<open>@cloudflare/workers-types\<close> and not to the repository. It has the shape
  \<open>{ error?: string, meta: { rows_read: number, rows_written: number },
  results: Array<record> }\<close>. The \<open>error\<close> field is absent (\<open>undefined\<close>) or a
  string; answers that carry \<open>error: null\<close> occur as well.
\<close>

datatype error_field = ErrUndefined | ErrNull | ErrString string

text \<open>
  Modelled from the spec: the \<open>meta\<close> object of an answer. Row counts are natural
  numbers. The source adds them as doubles, which is the exact sum as long as it does
  not exceed \<open>2^53\<close>.
\<close>

record d1_meta =
  rows_read :: nat
  rows_written :: nat

text \<open>Modelled from the spec: the answer itself, with \<open>results\<close> an array of rows.\<close>

record d1_result =
  error :: error_field
  meta :: d1_meta
  results :: "row list"

text \<open>
  Modelled from the spec: a prepared statement, the SQL text with the positional
  parameters bound to it.
\<close>

record d1_statement =
  st_sql :: string
  st_params :: "jsval list"

text \<open>
  Modelled from the spec: the remote store behind the handle. Given a statement and
  its own state \<open>'s\<close>, it answers (or the awaited promise rejects, \<open>Inl\<close>) and moves
  to a new state.
\<close>

type_synonym 's D1Database = "d1_statement \<Rightarrow> 's \<Rightarrow> (js_error + d1_result) \<times> 's"

text \<open>
  The world: the state of the remote database, the exchanges made with it so far (each
  statement sent, with the answer received), and the number of connection objects
  constructed so far.
\<close>

record 's world =
  store :: 's
  exchanges :: "(d1_statement \<times> (js_error + d1_result)) list"
  allocated :: nat

text \<open>
  Modelled from the spec: \<open>prepare(sql)\<close> of the database handle (package
  \<open>@cloudflare/workers-types\<close>, not part of the repository), which returns a bindable
  statement.
\<close>

definition D1_prepare :: "string \<Rightarrow> d1_statement" where
  "D1_prepare s = \<lparr>st_sql = s, st_params = []\<rparr>"

text \<open>
  Modelled from the spec: \<open>bind(...params)\<close> of a statement, which attaches the
  positional parameters.
\<close>

definition D1_bind :: "d1_statement \<Rightarrow> jsval list \<Rightarrow> d1_statement" where
  "D1_bind st ps = st\<lparr>st_params := ps\<rparr>"

text \<open>
  Modelled from the spec: \<open>all()\<close> of a statement, which executes it on the remote
  store and returns the answer. The exchange is recorded in the world.
\<close>

definition D1_all ::
  "'s D1Database \<Rightarrow> d1_statement \<Rightarrow> 's world \<Rightarrow> (js_error + d1_result) \<times> 's world" where
  "D1_all db st w =
     (case db st (store w) of
        (answer, s') \<Rightarrow>
          (answer, w\<lparr>store := s', exchanges := exchanges w @ [(st, answer)]\<rparr>))"

subsection \<open>Configuration, queries and results\<close>

text \<open>The interface \<open>D1DialectConfig\<close>.\<close>

record 's D1DialectConfig =
  database :: "'s D1Database"

text \<open>
  Modelled from the spec: \<open>CompiledQuery\<close> of the query builder (package
  \<open>kysely\<close>), the rendered SQL text and the ordered sequence of bind parameters.
\<close>

record CompiledQuery =
  sql :: string
  parameters :: "jsval list"

text \<open>The object that \<open>executeQuery\<close> returns, with the four fields of its literal.\<close>

record QueryResult =
  insertId :: "int option"
  rows :: "row list"
  numAffectedRows :: nat
  numUpdatedOrDeletedRows :: nat

subsection \<open>\<open>D1Connection\<close>\<close>

text \<open>
  A connection object has the private field \<open>#config\<close>. \<open>conn_id\<close> is the identity of
  the object: \<open>new D1Connection(config)\<close> gives each object the next unused one.
\<close>

record 's D1Connection =
  conn_id :: nat
  conn_config :: "'s D1DialectConfig"

definition new_D1Connection ::
  "'s D1DialectConfig \<Rightarrow> 's world \<Rightarrow> 's D1Connection \<times> 's world" where
  "new_D1Connection cfg w =
     (\<lparr>conn_id = allocated w, conn_config = cfg\<rparr>, w\<lparr>allocated := Suc (allocated w)\<rparr>)"

text \<open>
  \<open>if (result.error)\<close> tests the field with ToBoolean: \<open>undefined\<close>, \<open>null\<close> and
  the empty string are falsy, every other string is truthy. \<open>new Error(x)\<close> has the
  message \<open>String(x)\<close>, and the empty message for \<open>undefined\<close>.
\<close>

definition ToBoolean :: "error_field \<Rightarrow> bool" where
  "ToBoolean e = (case e of ErrUndefined \<Rightarrow> False | ErrNull \<Rightarrow> False | ErrString m \<Rightarrow> m \<noteq> [])"

definition new_Error :: "error_field \<Rightarrow> js_error" where
  "new_Error e =
     (case e of ErrUndefined \<Rightarrow> Error [] | ErrNull \<Rightarrow> Error ''null'' | ErrString m \<Rightarrow> Error m)"

text \<open>
  \<open>executeQuery\<close>. \<open>result.results[result.results.length - 1]\<close> is \<open>undefined\<close> for
  an empty array, so \<open>lastRow?.id\<close> is \<open>undefined\<close> there. An array is truthy, so
  \<open>result.results || []\<close> is \<open>result.results\<close>. The object literal evaluates
  \<open>insertId\<close> first; when \<open>BigInt\<close> throws there, no result is built.
\<close>

definition executeQuery ::
  "'s D1Connection \<Rightarrow> CompiledQuery \<Rightarrow> 's world \<Rightarrow> (js_error + QueryResult) \<times> 's world" where
  "executeQuery this compiledQuery w =
     (case D1_all (database (conn_config this))
             (D1_bind (D1_prepare (sql compiledQuery)) (parameters compiledQuery)) w of
        (Inl e, w') \<Rightarrow> (Inl e, w')
      | (Inr result, w') \<Rightarrow>
          if ToBoolean (error result) then (Inl (new_Error (error result)), w')
          else
            let numAffected = rows_read (meta result) + rows_written (meta result);
                lastRow = (if results result = [] then None else Some (last (results result)));
                lastId = (case lastRow of None \<Rightarrow> JUndefined | Some r \<Rightarrow> getField r ''id'')
            in if lastId = JUndefined \<or> lastId = JNull
               then (Inr \<lparr>insertId = None, rows = results result,
                          numAffectedRows = numAffected,
                          numUpdatedOrDeletedRows = numAffected\<rparr>, w')
               else (case BigInt lastId of
                       Inl e \<Rightarrow> (Inl e, w')
                     | Inr n \<Rightarrow>
                         (Inr \<lparr>insertId = Some n, rows = results result,
                               numAffectedRows = numAffected,
                               numUpdatedOrDeletedRows = numAffected\<rparr>, w')))"

text \<open>The transaction methods and \<open>streamQuery\<close> only throw. \<open>streamQuery\<close> is an
  async generator: its body runs when the first chunk is requested, and the outcome
  below is the outcome of that request.\<close>

definition beginTransaction :: "'s D1Connection \<Rightarrow> 's world \<Rightarrow> (js_error + unit) \<times> 's world" where
  "beginTransaction this w = (Inl (Error ''Transactions are not supported yet.''), w)"

definition commitTransaction :: "'s D1Connection \<Rightarrow> 's world \<Rightarrow> (js_error + unit) \<times> 's world" where
  "commitTransaction this w = (Inl (Error ''Transactions are not supported yet.''), w)"

definition rollbackTransaction :: "'s D1Connection \<Rightarrow> 's world \<Rightarrow> (js_error + unit) \<times> 's world" where
  "rollbackTransaction this w = (Inl (Error ''Transactions are not supported yet.''), w)"

definition streamQuery ::
  "'s D1Connection \<Rightarrow> CompiledQuery \<Rightarrow> jsnum \<Rightarrow> 's world \<Rightarrow> (js_error + QueryResult) \<times> 's world" where
  "streamQuery this compiledQuery chunkSize w =
     (Inl (Error ''D1 Driver does not support streaming''), w)"

subsection \<open>\<open>D1Driver\<close>\<close>

record 's D1Driver =
  driver_config :: "'s D1DialectConfig"

definition init :: "'s D1Driver \<Rightarrow> 's world \<Rightarrow> (js_error + unit) \<times> 's world" where
  "init this w = (Inr (), w)"

definition acquireConnection ::
  "'s D1Driver \<Rightarrow> 's world \<Rightarrow> (js_error + 's D1Connection) \<times> 's world" where
  "acquireConnection this w =
     (case new_D1Connection (driver_config this) w of (conn, w') \<Rightarrow> (Inr conn, w'))"

definition driver_beginTransaction ::
  "'s D1Driver \<Rightarrow> 's D1Connection \<Rightarrow> 's world \<Rightarrow> (js_error + unit) \<times> 's world" where
  "driver_beginTransaction this conn w = beginTransaction conn w"

definition driver_commitTransaction ::
  "'s D1Driver \<Rightarrow> 's D1Connection \<Rightarrow> 's world \<Rightarrow> (js_error + unit) \<times> 's world" where
  "driver_commitTransaction this conn w = commitTransaction conn w"

definition driver_rollbackTransaction ::
  "'s D1Driver \<Rightarrow> 's D1Connection \<Rightarrow> 's world \<Rightarrow> (js_error + unit) \<times> 's world" where
  "driver_rollbackTransaction this conn w = rollbackTransaction conn w"

definition releaseConnection ::
  "'s D1Driver \<Rightarrow> 's D1Connection \<Rightarrow> 's world \<Rightarrow> (js_error + unit) \<times> 's world" where
  "releaseConnection this conn w = (Inr (), w)"

definition destroy :: "'s D1Driver \<Rightarrow> 's world \<Rightarrow> (js_error + unit) \<times> 's world" where
  "destroy this w = (Inr (), w)"

subsection \<open>\<open>D1Dialect\<close>\<close>

text \<open>
  The dialect keeps the configuration and passes it to the driver it creates. Its other
  three methods construct the SQLite adapter, query compiler and introspector of the
  query builder; they do not touch the database handle.
\<close>

record 's D1Dialect =
  dialect_config :: "'s D1DialectConfig"

definition createDriver :: "'s D1Dialect \<Rightarrow> 's D1Driver" where
  "createDriver this = \<lparr>driver_config = dialect_config this\<rparr>"

subsection \<open>A store with a fixed answer\<close>

text \<open>
  The simplest database: it has no state and answers every statement with the same
  result. It is the store of the concrete runs below.
\<close>

definition fixedStore :: "d1_result \<Rightarrow> unit D1Database" where
  "fixedStore answer st s = (Inr answer, s)"

section \<open>Properties\<close>

subsection \<open>What \<open>executeQuery\<close> sends and what it does with the answer\<close>

lemma D1_all_sent:
  "D1_all db (D1_bind (D1_prepare s) ps) w =
     (fst (db \<lparr>st_sql = s, st_params = ps\<rparr> (store w)),
      w\<lparr>store := snd (db \<lparr>st_sql = s, st_params = ps\<rparr> (store w)),
        exchanges := exchanges w @ [(\<lparr>st_sql = s, st_params = ps\<rparr>,
                                     fst (db \<lparr>st_sql = s, st_params = ps\<rparr> (store w)))]\<rparr>)"
  by (simp add: D1_all_def D1_bind_def D1_prepare_def split: prod.split)

text \<open>Once the store has answered (the promise did not reject), the rest of
  \<open>executeQuery\<close> is a function of the answer.\<close>

lemma executeQuery_answered:
  assumes "database (conn_config this) \<lparr>st_sql = sql q, st_params = parameters q\<rparr> (store w)
             = (Inr answer, s')"
  shows "executeQuery this q w =
     (let w' = w\<lparr>store := s',
                 exchanges := exchanges w @
                   [(\<lparr>st_sql = sql q, st_params = parameters q\<rparr>, Inr answer)]\<rparr>;
          n = rows_read (meta answer) + rows_written (meta answer);
          lastId = (if results answer = [] then JUndefined
                    else getField (last (results answer)) ''id'')
      in if ToBoolean (error answer) then (Inl (new_Error (error answer)), w')
         else if lastId = JUndefined \<or> lastId = JNull
           then (Inr \<lparr>insertId = None, rows = results answer,
                      numAffectedRows = n, numUpdatedOrDeletedRows = n\<rparr>, w')
           else (case BigInt lastId of
                   Inl e \<Rightarrow> (Inl e, w')
                 | Inr i \<Rightarrow>
                     (Inr \<lparr>insertId = Some i, rows = results answer,
                           numAffectedRows = n, numUpdatedOrDeletedRows = n\<rparr>, w')))"
  using assms by (simp add: executeQuery_def D1_all_sent Let_def)

lemma getField_Some: "r k = Some v \<Longrightarrow> getField r k = v"
  by (simp add: getField_def)



lemma NumberToBigInt_integral: "NumberToBigInt (Finite (of_int k)) = Inr k"
  by (simp add: NumberToBigInt_def)

lemma NumberToBigInt_nonintegral:
  "(\<forall>k. x \<noteq> Finite (of_int k)) \<Longrightarrow> NumberToBigInt x = Inl RangeError"
  by (cases x) (auto simp: NumberToBigInt_def)

subsection \<open>The insertion identifier\<close>



subsection \<open>The affected-row count\<close>





subsection \<open>What reaches the remote store\<close>

text \<open>
  C5. Every call of \<open>executeQuery\<close> makes exactly one exchange with the store, and
  the statement sent carries the SQL text of the compiled query unchanged and its
  parameters, all of them and in their order.
\<close>

theorem statement_forwarded:
  "exchanges (snd (executeQuery this q w)) =
     exchanges w @
       [(\<lparr>st_sql = sql q, st_params = parameters q\<rparr>,
         fst (database (conn_config this)
                \<lparr>st_sql = sql q, st_params = parameters q\<rparr> (store w)))]
   \<and> length (st_params (fst (last (exchanges (snd (executeQuery this q w))))))
       = length (parameters q)"
  by (simp add: executeQuery_def D1_all_sent Let_def split: sum.split)

text \<open>A query with three parameters, sent after an earlier exchange.\<close>

theorem statement_forwarded_witness:
  "exchanges (snd (executeQuery
      \<lparr>conn_id = 0, conn_config = \<lparr>database = fixedStore
         \<lparr>error = ErrUndefined, meta = \<lparr>rows_read = 0, rows_written = 1\<rparr>, results = []\<rparr>\<rparr>\<rparr>
      \<lparr>sql = ''INSERT INTO t (a, b, c) VALUES (?, ?, ?)'',
       parameters = [JNum (Finite 1), JStr ''two'', JNull]\<rparr>
      \<lparr>store = (),
       exchanges = [(\<lparr>st_sql = ''SELECT 1'', st_params = []\<rparr>, Inl (Error ''offline''))],
       allocated = 1\<rparr>))
    = [(\<lparr>st_sql = ''SELECT 1'', st_params = []\<rparr>, Inl (Error ''offline'')),
       (\<lparr>st_sql = ''INSERT INTO t (a, b, c) VALUES (?, ?, ?)'',
         st_params = [JNum (Finite 1), JStr ''two'', JNull]\<rparr>,
        Inr \<lparr>error = ErrUndefined, meta = \<lparr>rows_read = 0, rows_written = 1\<rparr>,
             results = []\<rparr>)]"
  using statement_forwarded
    [of "\<lparr>conn_id = 0, conn_config = \<lparr>database = fixedStore
            \<lparr>error = ErrUndefined, meta = \<lparr>rows_read = 0, rows_written = 1\<rparr>,
             results = []\<rparr>\<rparr>\<rparr>"
        "\<lparr>sql = ''INSERT INTO t (a, b, c) VALUES (?, ?, ?)'',
          parameters = [JNum (Finite 1), JStr ''two'', JNull]\<rparr>"
        "\<lparr>store = (),
          exchanges = [(\<lparr>st_sql = ''SELECT 1'', st_params = []\<rparr>, Inl (Error ''offline''))],
          allocated = 1\<rparr>"]
  by (simp add: fixedStore_def)

text \<open>
  C6. The compiled query \<open>SELECT * FROM t WHERE x = ?\<close> with the parameter list
  \<open>[5]\<close>, answered with \<open>{error: null, meta: {rows_read: 1, rows_written: 0},
  results: [{id: 7, x: 5}]}\<close>, gives \<open>insertId: 7n\<close>, the row \<open>{id: 7, x: 5}\<close>
  and \<open>numAffectedRows: 1\<close> (and \<open>numUpdatedOrDeletedRows: 1\<close>, see C10).
\<close>

theorem select_example:
  assumes ans: "database (conn_config this)
            \<lparr>st_sql = ''SELECT * FROM t WHERE x = ?'', st_params = [JNum (Finite 5)]\<rparr> (store w)
          = (Inr \<lparr>error = ErrNull, meta = \<lparr>rows_read = 1, rows_written = 0\<rparr>,
                  results = [[''id'' \<mapsto> JNum (Finite 7), ''x'' \<mapsto> JNum (Finite 5)]]\<rparr>, s')"
  shows "fst (executeQuery this
                \<lparr>sql = ''SELECT * FROM t WHERE x = ?'', parameters = [JNum (Finite 5)]\<rparr> w)
       = Inr \<lparr>insertId = Some 7,
              rows = [[''id'' \<mapsto> JNum (Finite 7), ''x'' \<mapsto> JNum (Finite 5)]],
              numAffectedRows = 1, numUpdatedOrDeletedRows = 1\<rparr>"
proof -
  let ?q = "\<lparr>sql = ''SELECT * FROM t WHERE x = ?'', parameters = [JNum (Finite 5)]\<rparr>"
  from ans
  have "database (conn_config this) \<lparr>st_sql = sql ?q, st_params = parameters ?q\<rparr> (store w)
          = (Inr \<lparr>error = ErrNull, meta = \<lparr>rows_read = 1, rows_written = 0\<rparr>,
                  results = [[''id'' \<mapsto> JNum (Finite 7), ''x'' \<mapsto> JNum (Finite 5)]]\<rparr>, s')"
    by simp
  from executeQuery_answered[OF this] show ?thesis
    by (simp add: ToBoolean_def getField_def BigInt_def NumberToBigInt_def Let_def)
qed

text \<open>The example on a connection whose store gives that answer.\<close>

theorem select_example_witness:
  "fst (executeQuery
      \<lparr>conn_id = 0, conn_config = \<lparr>database = fixedStore
         \<lparr>error = ErrNull, meta = \<lparr>rows_read = 1, rows_written = 0\<rparr>,
          results = [[''id'' \<mapsto> JNum (Finite 7), ''x'' \<mapsto> JNum (Finite 5)]]\<rparr>\<rparr>\<rparr>
      \<lparr>sql = ''SELECT * FROM t WHERE x = ?'', parameters = [JNum (Finite 5)]\<rparr>
      \<lparr>store = (), exchanges = [], allocated = 1\<rparr>)
   = Inr \<lparr>insertId = Some 7,
          rows = [[''id'' \<mapsto> JNum (Finite 7), ''x'' \<mapsto> JNum (Finite 5)]],
          numAffectedRows = 1, numUpdatedOrDeletedRows = 1\<rparr>"
proof -
  let ?answer = "\<lparr>error = ErrNull, meta = \<lparr>rows_read = 1, rows_written = 0\<rparr>,
          results = [[''id'' \<mapsto> JNum (Finite 7), ''x'' \<mapsto> JNum (Finite 5)]]\<rparr>"
  let ?c = "\<lparr>conn_id = 0, conn_config = \<lparr>database = fixedStore ?answer\<rparr>\<rparr>"
  let ?w = "\<lparr>store = (), exchanges = [], allocated = 1\<rparr>"
  have ans: "database (conn_config ?c)
            \<lparr>st_sql = ''SELECT * FROM t WHERE x = ?'', st_params = [JNum (Finite 5)]\<rparr> (store ?w)
          = (Inr ?answer, ())"
    by (simp add: fixedStore_def)
  from select_example[OF ans] show ?thesis .
qed

subsection \<open>Errors reported by the remote store\<close>

text \<open>
  C2, as the code has it. When the answer's \<open>error\<close> field is a non-empty string,
  \<open>executeQuery\<close> throws \<open>Error\<close> with exactly that string as its message; it has
  made the one exchange and no more, and no result is returned.
\<close>

theorem remote_error_thrown:
  assumes ans: "database (conn_config this) \<lparr>st_sql = sql q, st_params = parameters q\<rparr> (store w)
                  = (Inr answer, s')"
      and err: "error answer = ErrString m"
      and ne: "m \<noteq> []"
  shows "executeQuery this q w =
           (Inl (Error m),
            w\<lparr>store := s',
              exchanges := exchanges w @
                [(\<lparr>st_sql = sql q, st_params = parameters q\<rparr>, Inr answer)]\<rparr>)"
  unfolding executeQuery_answered[OF ans] using err ne
  by (simp add: ToBoolean_def new_Error_def Let_def)

text \<open>A store that reports a missing table.\<close>

theorem remote_error_thrown_witness:
  "executeQuery
      \<lparr>conn_id = 2, conn_config = \<lparr>database = fixedStore
         \<lparr>error = ErrString ''no such table: t'', meta = \<lparr>rows_read = 0, rows_written = 0\<rparr>,
          results = []\<rparr>\<rparr>\<rparr>
      \<lparr>sql = ''SELECT * FROM t'', parameters = []\<rparr>
      \<lparr>store = (), exchanges = [], allocated = 3\<rparr>
    = (Inl (Error ''no such table: t''),
       \<lparr>store = (),
        exchanges = [(\<lparr>st_sql = ''SELECT * FROM t'', st_params = []\<rparr>,
           Inr \<lparr>error = ErrString ''no such table: t'',
                meta = \<lparr>rows_read = 0, rows_written = 0\<rparr>, results = []\<rparr>)],
        allocated = 3\<rparr>)"
proof -
  let ?answer = "\<lparr>error = ErrString ''no such table: t'',
                  meta = \<lparr>rows_read = 0, rows_written = 0\<rparr>, results = []\<rparr>"
  let ?c = "\<lparr>conn_id = 2, conn_config = \<lparr>database = fixedStore ?answer\<rparr>\<rparr>"
  let ?q = "\<lparr>sql = ''SELECT * FROM t'', parameters = []\<rparr>"
  let ?w = "\<lparr>store = (), exchanges = [], allocated = 3\<rparr>"
  have ans: "database (conn_config ?c) \<lparr>st_sql = sql ?q, st_params = parameters ?q\<rparr> (store ?w)
               = (Inr ?answer, ())"
    by (simp add: fixedStore_def)
  have err: "error ?answer = ErrString ''no such table: t''"
    by simp
  have ne: "''no such table: t'' \<noteq> []"
    by simp
  from remote_error_thrown[OF ans err ne] show ?thesis
    by simp
qed

text \<open>
  C2, as it is worded, covers every answer whose \<open>error\<close> field is set. An answer
  whose \<open>error\<close> field is set to the empty string does not make \<open>executeQuery\<close>
  throw: the call returns a result.
\<close>

theorem empty_error_string_returns:
  "executeQuery
      \<lparr>conn_id = 0, conn_config = \<lparr>database = fixedStore
         \<lparr>error = ErrString [], meta = \<lparr>rows_read = 0, rows_written = 0\<rparr>, results = []\<rparr>\<rparr>\<rparr>
      \<lparr>sql = ''SELECT 1'', parameters = []\<rparr>
      \<lparr>store = (), exchanges = [], allocated = 0\<rparr>
    = (Inr \<lparr>insertId = None, rows = [], numAffectedRows = 0, numUpdatedOrDeletedRows = 0\<rparr>,
       \<lparr>store = (),
        exchanges = [(\<lparr>st_sql = ''SELECT 1'', st_params = []\<rparr>,
           Inr \<lparr>error = ErrString [], meta = \<lparr>rows_read = 0, rows_written = 0\<rparr>,
                results = []\<rparr>)],
        allocated = 0\<rparr>)"
  by (simp add: executeQuery_def D1_all_def D1_bind_def D1_prepare_def fixedStore_def
        ToBoolean_def Let_def)




subsection \<open>The \<open>BigInt\<close> conversion is partial\<close>

text \<open>
  C9. Take an answer without an error whose last row has a number in its \<open>id\<close>
  field. If the number is not integral (\<open>1.5\<close>, say, or \<open>NaN\<close>), \<open>executeQuery\<close>
  throws the RangeError of the \<open>BigInt\<close> conversion, although the store reported
  success. If the number is the integer \<open>k\<close>, the call returns, with \<open>insertId\<close>
  equal to \<open>k\<close>. So the success branch returns only for an integral \<open>id\<close>.
\<close>

theorem fractional_id_throws:
  assumes ans: "database (conn_config this) \<lparr>st_sql = sql q, st_params = parameters q\<rparr> (store w)
                  = (Inr answer, s')"
      and noerr: "\<not> ToBoolean (error answer)"
      and nonempty: "results answer \<noteq> []"
      and idv: "last (results answer) ''id'' = Some (JNum x)"
  shows "((\<forall>k. x \<noteq> Finite (of_int k)) \<longrightarrow> fst (executeQuery this q w) = Inl RangeError)
       \<and> (\<forall>k. x = Finite (of_int k) \<longrightarrow>
             fst (executeQuery this q w) =
               Inr \<lparr>insertId = Some k, rows = results answer,
                    numAffectedRows = rows_read (meta answer) + rows_written (meta answer),
                    numUpdatedOrDeletedRows =
                      rows_read (meta answer) + rows_written (meta answer)\<rparr>)"
  unfolding executeQuery_answered[OF ans] using noerr nonempty idv
  by (simp add: Let_def getField_Some BigInt_def NumberToBigInt_integral
        NumberToBigInt_nonintegral)

text \<open>The last row has \<open>id: 1.5\<close> in the first run and \<open>id: 8\<close> in the second.\<close>

theorem fractional_id_throws_witness:
  "fst (executeQuery
      \<lparr>conn_id = 0, conn_config = \<lparr>database = fixedStore
         \<lparr>error = ErrUndefined, meta = \<lparr>rows_read = 1, rows_written = 0\<rparr>,
          results = [[''id'' \<mapsto> JNum (Finite (3 / 2))]]\<rparr>\<rparr>\<rparr>
      \<lparr>sql = ''SELECT id FROM measurement'', parameters = []\<rparr>
      \<lparr>store = (), exchanges = [], allocated = 1\<rparr>)
    = Inl RangeError
   \<and> fst (executeQuery
      \<lparr>conn_id = 0, conn_config = \<lparr>database = fixedStore
         \<lparr>error = ErrUndefined, meta = \<lparr>rows_read = 1, rows_written = 0\<rparr>,
          results = [[''id'' \<mapsto> JNum (Finite 8)]]\<rparr>\<rparr>\<rparr>
      \<lparr>sql = ''SELECT id FROM measurement'', parameters = []\<rparr>
      \<lparr>store = (), exchanges = [], allocated = 1\<rparr>)
    = Inr \<lparr>insertId = Some 8, rows = [[''id'' \<mapsto> JNum (Finite 8)]],
           numAffectedRows = 1, numUpdatedOrDeletedRows = 1\<rparr>"
proof -
  let ?answer = "\<lparr>error = ErrUndefined, meta = \<lparr>rows_read = 1, rows_written = 0\<rparr>,
          results = [[''id'' \<mapsto> JNum (Finite (3 / 2))]]\<rparr>"
  let ?answer2 = "\<lparr>error = ErrUndefined, meta = \<lparr>rows_read = 1, rows_written = 0\<rparr>,
          results = [[''id'' \<mapsto> JNum (Finite 8)]]\<rparr>"
  let ?c = "\<lparr>conn_id = 0, conn_config = \<lparr>database = fixedStore ?answer\<rparr>\<rparr>"
  let ?c2 = "\<lparr>conn_id = 0, conn_config = \<lparr>database = fixedStore ?answer2\<rparr>\<rparr>"
  let ?q = "\<lparr>sql = ''SELECT id FROM measurement'', parameters = []\<rparr>"
  let ?w = "\<lparr>store = (), exchanges = [], allocated = 1\<rparr>"
  have ans: "database (conn_config ?c) \<lparr>st_sql = sql ?q, st_params = parameters ?q\<rparr> (store ?w)
               = (Inr ?answer, ())"
    by (simp add: fixedStore_def)
  have ans2: "database (conn_config ?c2) \<lparr>st_sql = sql ?q, st_params = parameters ?q\<rparr> (store ?w)
               = (Inr ?answer2, ())"
    by (simp add: fixedStore_def)
  have noerr: "\<not> ToBoolean (error ?answer)" "\<not> ToBoolean (error ?answer2)"
    by (simp_all add: ToBoolean_def)
  have nonempty: "results ?answer \<noteq> []" "results ?answer2 \<noteq> []"
    by simp_all
  have idv: "last (results ?answer) ''id'' = Some (JNum (Finite (3 / 2)))"
    by simp
  have idv2: "last (results ?answer2) ''id'' = Some (JNum (Finite 8))"
    by simp
  have frac: "(3 / 2 :: rat) \<noteq> of_int k" for k
  proof
    assume "(3 / 2 :: rat) = of_int k"
    then have "(of_int (2 * k) :: rat) = of_int 3"
      by simp
    then have "2 * k = 3"
      by (simp only: of_int_eq_iff)
    then show False
      by presburger
  qed
  then have nonint: "\<forall>k. Finite (3 / 2) \<noteq> Finite (of_int k)"
    by simp
  have int8: "Finite 8 = Finite (of_int 8)"
    by simp
  from fractional_id_throws[OF ans noerr(1) nonempty(1) idv] nonint
  have first: "fst (executeQuery ?c ?q ?w) = Inl RangeError"
    by blast
  from fractional_id_throws[OF ans2 noerr(2) nonempty(2) idv2] int8
  have "fst (executeQuery ?c2 ?q ?w) =
          Inr \<lparr>insertId = Some 8, rows = results ?answer2,
               numAffectedRows = rows_read (meta ?answer2) + rows_written (meta ?answer2),
               numUpdatedOrDeletedRows =
                 rows_read (meta ?answer2) + rows_written (meta ?answer2)\<rparr>"
    by blast
  then have second: "fst (executeQuery ?c2 ?q ?w)
      = Inr \<lparr>insertId = Some 8, rows = [[''id'' \<mapsto> JNum (Finite 8)]],
             numAffectedRows = 1, numUpdatedOrDeletedRows = 1\<rparr>"
    by simp
  from first second show ?thesis
    by blast
qed

subsection \<open>Operations that are not supported\<close>

text \<open>
  C4. \<open>beginTransaction\<close>, \<open>commitTransaction\<close> and \<open>rollbackTransaction\<close>, called
  on the connection or through the driver, throw \<open>Error\<close> with the message
  \<open>Transactions are not supported yet.\<close>; \<open>streamQuery\<close> throws \<open>Error\<close> with the
  message \<open>D1 Driver does not support streaming\<close>. This holds for every connection,
  driver and world, so after any sequence of earlier calls, and the world is left as it
  was.
\<close>

theorem unsupported_operations_fail:
  "beginTransaction conn w = (Inl (Error ''Transactions are not supported yet.''), w)
 \<and> commitTransaction conn w = (Inl (Error ''Transactions are not supported yet.''), w)
 \<and> rollbackTransaction conn w = (Inl (Error ''Transactions are not supported yet.''), w)
 \<and> driver_beginTransaction drv conn w
      = (Inl (Error ''Transactions are not supported yet.''), w)
 \<and> driver_commitTransaction drv conn w
      = (Inl (Error ''Transactions are not supported yet.''), w)
 \<and> driver_rollbackTransaction drv conn w
      = (Inl (Error ''Transactions are not supported yet.''), w)
 \<and> streamQuery conn q chunkSize w = (Inl (Error ''D1 Driver does not support streaming''), w)"
  by (simp add: beginTransaction_def commitTransaction_def rollbackTransaction_def
      driver_beginTransaction_def driver_commitTransaction_def driver_rollbackTransaction_def
      streamQuery_def)

text \<open>
  The same calls in the world that a successful \<open>executeQuery\<close> has left behind, on
  the connection that made it.
\<close>

theorem unsupported_operations_fail_witness:
  "fst (beginTransaction
         \<lparr>conn_id = 0, conn_config = \<lparr>database = fixedStore
            \<lparr>error = ErrUndefined, meta = \<lparr>rows_read = 0, rows_written = 0\<rparr>, results = []\<rparr>\<rparr>\<rparr>
         (snd (executeQuery
            \<lparr>conn_id = 0, conn_config = \<lparr>database = fixedStore
               \<lparr>error = ErrUndefined, meta = \<lparr>rows_read = 0, rows_written = 0\<rparr>,
                results = []\<rparr>\<rparr>\<rparr>
            \<lparr>sql = ''SELECT 1'', parameters = []\<rparr>
            \<lparr>store = (), exchanges = [], allocated = 1\<rparr>)))
    = Inl (Error ''Transactions are not supported yet.'')
   \<and> fst (streamQuery
         \<lparr>conn_id = 0, conn_config = \<lparr>database = fixedStore
            \<lparr>error = ErrUndefined, meta = \<lparr>rows_read = 0, rows_written = 0\<rparr>, results = []\<rparr>\<rparr>\<rparr>
         \<lparr>sql = ''SELECT 1'', parameters = []\<rparr> (Finite 10)
         (snd (executeQuery
            \<lparr>conn_id = 0, conn_config = \<lparr>database = fixedStore
               \<lparr>error = ErrUndefined, meta = \<lparr>rows_read = 0, rows_written = 0\<rparr>,
                results = []\<rparr>\<rparr>\<rparr>
            \<lparr>sql = ''SELECT 1'', parameters = []\<rparr>
            \<lparr>store = (), exchanges = [], allocated = 1\<rparr>)))
    = Inl (Error ''D1 Driver does not support streaming'')"
  using unsupported_operations_fail
    [of "\<lparr>conn_id = 0, conn_config = \<lparr>database = fixedStore
            \<lparr>error = ErrUndefined, meta = \<lparr>rows_read = 0, rows_written = 0\<rparr>,
             results = []\<rparr>\<rparr>\<rparr>"
        "snd (executeQuery
            \<lparr>conn_id = 0, conn_config = \<lparr>database = fixedStore
               \<lparr>error = ErrUndefined, meta = \<lparr>rows_read = 0, rows_written = 0\<rparr>,
                results = []\<rparr>\<rparr>\<rparr>
            \<lparr>sql = ''SELECT 1'', parameters = []\<rparr>
            \<lparr>store = (), exchanges = [], allocated = 1\<rparr>)"
        _ "\<lparr>sql = ''SELECT 1'', parameters = []\<rparr>" "Finite 10"]
  by simp

subsection \<open>Acquiring and releasing a connection\<close>

text \<open>
  C7. \<open>acquireConnection\<close> always returns a connection; the connection is a new
  object (its identity was not in use before, and a further call returns a different
  connection) with the driver's configuration. \<open>releaseConnection\<close> on it returns and
  changes nothing. Neither call makes an exchange with the remote store or changes its
  state.
\<close>

theorem acquire_then_release:
  "\<exists>conn w1.
      acquireConnection drv w = (Inr conn, w1)
    \<and> conn_config conn = driver_config drv
    \<and> conn_id conn = allocated w \<and> allocated w1 = Suc (allocated w)
    \<and> fst (acquireConnection drv w1) \<noteq> Inr conn
    \<and> releaseConnection drv conn w1 = (Inr (), w1)
    \<and> exchanges w1 = exchanges w \<and> store w1 = store w"
  by (simp add: acquireConnection_def new_D1Connection_def releaseConnection_def)

text \<open>A driver in a world with one earlier exchange and two connections.\<close>

theorem acquire_then_release_witness:
  "\<exists>conn w1.
      acquireConnection
        \<lparr>driver_config = \<lparr>database = fixedStore
           \<lparr>error = ErrUndefined, meta = \<lparr>rows_read = 0, rows_written = 0\<rparr>, results = []\<rparr>\<rparr>\<rparr>
        \<lparr>store = (),
         exchanges = [(\<lparr>st_sql = ''SELECT 1'', st_params = []\<rparr>, Inl (Error ''offline''))],
         allocated = 2\<rparr> = (Inr conn, w1)
    \<and> conn_id conn = 2 \<and> allocated w1 = 3
    \<and> releaseConnection
        \<lparr>driver_config = \<lparr>database = fixedStore
           \<lparr>error = ErrUndefined, meta = \<lparr>rows_read = 0, rows_written = 0\<rparr>, results = []\<rparr>\<rparr>\<rparr>
        conn w1 = (Inr (), w1)
    \<and> exchanges w1 = [(\<lparr>st_sql = ''SELECT 1'', st_params = []\<rparr>, Inl (Error ''offline''))]"
proof -
  let ?drv = "\<lparr>driver_config = \<lparr>database = fixedStore
           \<lparr>error = ErrUndefined, meta = \<lparr>rows_read = 0, rows_written = 0\<rparr>,
            results = []\<rparr>\<rparr>\<rparr>"
  let ?w = "\<lparr>store = (),
          exchanges = [(\<lparr>st_sql = ''SELECT 1'', st_params = []\<rparr>, Inl (Error ''offline''))],
          allocated = 2\<rparr>"
  from acquire_then_release[of ?drv ?w]
  obtain conn w1 where acquired: "acquireConnection ?drv ?w = (Inr conn, w1)"
    and ident: "conn_id conn = allocated ?w" "allocated w1 = Suc (allocated ?w)"
    and released: "releaseConnection ?drv conn w1 = (Inr (), w1)"
    and quiet: "exchanges w1 = exchanges ?w"
    by blast
  from ident have "conn_id conn = 2" "allocated w1 = 3"
    by simp_all
  moreover from quiet
  have "exchanges w1 = [(\<lparr>st_sql = ''SELECT 1'', st_params = []\<rparr>, Inl (Error ''offline''))]"
    by simp
  ultimately show ?thesis
    using acquired released by blast
qed

end
